theory Spec2Isabelle
  imports Main "HOL-Library.Word"
begin

text \<open>
  A model of the request context (\<open>RequestContext\<close>, \<open>AppRequestContext\<close>,
  \<open>RequestContextService\<close>), of the exception base class with its \<open>toJSON\<close> and the
  not-found kind, and of the guard \<open>isEmpty\<close>. Functions of the source that throw return a
  sum, the thrown value on the left. Context objects are kept in a store; all other values
  are trees.
\<close>

section \<open>JavaScript values\<close>

text \<open>
  A JavaScript string is a sequence of 16-bit code units. \<open>lit\<close> writes an ASCII
  literal of the source as such a sequence.
\<close>

type_synonym code_unit = "16 word"
type_synonym js_string = "code_unit list"

definition lit :: "string \<Rightarrow> js_string" where
  "lit s = map of_char s"

text \<open>
  The program never computes with a Number or with the time value of a Date; the only
  operation that reads one is \<open>JSON.stringify\<close>, which prints it. A finite Number is
  therefore identified by the text that \<open>Number::toString\<close> gives it, and a Date by the
  text of \<open>toISOString\<close> (\<open>None\<close> for an invalid Date, whose time value is NaN).
\<close>

datatype jsnumber = NaN | PosInfinity | NegInfinity | Finite js_string

text \<open>
  Values without identity, as trees (so without cycles). \<open>JObject\<close> is an ordinary object:
  its own enumerable string-keyed properties, in property order. It stands for every object
  that is neither a Date nor an array nor callable and has no \<open>toJSON\<close> method. Proxy
  objects are not represented.
\<close>

datatype jsvalue =
    JUndefined
  | JNull
  | JBoolean bool
  | JNumber jsnumber
  | JBigInt int
  | JString js_string
  | JSymbol
  | JFunction
  | JDate "js_string option"
  | JArray "jsvalue list"
  | JObject "(js_string \<times> jsvalue) list"

section \<open>Errors and exceptions\<close>

text \<open>
  What the type \<open>Error\<close> of the source ranges over: an instance of a built-in error class
  (its message, and the own enumerable properties a library may have added; a plain
  \<open>new Error(message)\<close> has none, \<open>message\<close> and \<open>stack\<close> being non-enumerable), or an instance
  of a concrete kind of \<open>ExceptionBase\<close>. The fields of \<open>exception\<close> are those of the class
  in \<^verbatim>\<open>exception.base.ts\<close>; \<open>correlationId\<close> is declared a string and holds whatever
  \<open>requestId\<close> held, which may be \<open>undefined\<close>.
\<close>

datatype native_class = Error_class | TypeError_class | RangeError_class

datatype error_value =
    NativeError native_class js_string "(js_string \<times> jsvalue) list"
  | DomainException exception
and exception =
    Exception (message: js_string) (code: js_string) (stack: js_string)
      (correlationId: jsvalue) (cause: "error_value option")
      (metadata: "(js_string \<times> jsvalue) list option")

text \<open>The interface \<open>SerializedException\<close>.\<close>

record SerializedException =
  ser_message :: js_string
  ser_code :: js_string
  ser_correlationId :: jsvalue
  ser_stack :: js_string
  ser_cause :: jsvalue
  ser_metadata :: jsvalue

section \<open>Built-ins of the runtime\<close>

subsection \<open>\<open>String.prototype.trim\<close>\<close>

text \<open>The code units of ECMAScript's WhiteSpace and LineTerminator productions.\<close>

definition isWhiteSpace :: "code_unit \<Rightarrow> bool" where
  "isWhiteSpace c \<longleftrightarrow>
     c \<in> set [0x9, 0xA, 0xB, 0xC, 0xD, 0x20, 0xA0, 0x1680, 0x2028, 0x2029, 0x202F, 0x205F,
              0x3000, 0xFEFF]
     \<or> (0x2000 \<le> c \<and> c \<le> 0x200A)"

definition trim :: "js_string \<Rightarrow> js_string" where
  "trim s = rev (dropWhile isWhiteSpace (rev (dropWhile isWhiteSpace s)))"

subsection \<open>\<open>JSON.stringify\<close> with one argument\<close>

definition hex_digit :: "nat \<Rightarrow> code_unit" where
  "hex_digit n = (if n < 10 then of_nat (48 + n) else of_nat (87 + n))"

definition UnicodeEscape :: "code_unit \<Rightarrow> js_string" where
  "UnicodeEscape c =
     [0x5C, 0x75, hex_digit (unat c div 4096), hex_digit (unat c div 256 mod 16),
      hex_digit (unat c div 16 mod 16), hex_digit (unat c mod 16)]"

definition is_leading_surrogate :: "code_unit \<Rightarrow> bool" where
  "is_leading_surrogate c \<longleftrightarrow> 0xD800 \<le> c \<and> c \<le> 0xDBFF"

definition is_trailing_surrogate :: "code_unit \<Rightarrow> bool" where
  "is_trailing_surrogate c \<longleftrightarrow> 0xDC00 \<le> c \<and> c \<le> 0xDFFF"

definition quote_unit :: "code_unit \<Rightarrow> js_string" where
  "quote_unit c =
     (if c = 0x08 then [0x5C, 0x62]
      else if c = 0x09 then [0x5C, 0x74]
      else if c = 0x0A then [0x5C, 0x6E]
      else if c = 0x0C then [0x5C, 0x66]
      else if c = 0x0D then [0x5C, 0x72]
      else if c = 0x22 then [0x5C, 0x22]
      else if c = 0x5C then [0x5C, 0x5C]
      else if c < 0x20 \<or> is_leading_surrogate c \<or> is_trailing_surrogate c
        then UnicodeEscape c
      else [c])"

text \<open>A surrogate pair is one code point and is copied; a lone surrogate is escaped.\<close>

fun quote_units :: "js_string \<Rightarrow> js_string" where
  "quote_units [] = []"
| "quote_units [c] = quote_unit c"
| "quote_units (c # d # cs) =
     (if is_leading_surrogate c \<and> is_trailing_surrogate d then c # d # quote_units cs
      else quote_unit c @ quote_units (d # cs))"

definition QuoteJSONString :: "js_string \<Rightarrow> js_string" where
  "QuoteJSONString s = [0x22] @ quote_units s @ [0x22]"

fun join :: "js_string \<Rightarrow> js_string list \<Rightarrow> js_string" where
  "join sep [] = []"
| "join sep [x] = x"
| "join sep (x # y # ys) = x @ sep @ join sep (y # ys)"

text \<open>The first element that throws ends the serialisation.\<close>

fun sequence :: "('e + 'a) list \<Rightarrow> 'e + 'a list" where
  "sequence [] = Inr []"
| "sequence (Inl e # rs) = Inl e"
| "sequence (Inr x # rs) = (case sequence rs of Inl e \<Rightarrow> Inl e | Inr xs \<Rightarrow> Inr (x # xs))"

text \<open>
  \<open>SerializeJSONProperty\<close> of ECMAScript, without replacer and indentation. \<open>None\<close> is the
  result \<open>undefined\<close>; a BigInt throws a TypeError.
\<close>

fun SerializeJSONProperty :: "jsvalue \<Rightarrow> error_value + js_string option" where
  "SerializeJSONProperty JUndefined = Inr None"
| "SerializeJSONProperty JNull = Inr (Some (lit ''null''))"
| "SerializeJSONProperty (JBoolean b) = Inr (Some (if b then lit ''true'' else lit ''false''))"
| "SerializeJSONProperty (JNumber n) =
     Inr (Some (case n of Finite t \<Rightarrow> t | _ \<Rightarrow> lit ''null''))"
| "SerializeJSONProperty (JBigInt i) =
     Inl (NativeError TypeError_class (lit ''Do not know how to serialize a BigInt'') [])"
| "SerializeJSONProperty (JString s) = Inr (Some (QuoteJSONString s))"
| "SerializeJSONProperty JSymbol = Inr None"
| "SerializeJSONProperty JFunction = Inr None"
| "SerializeJSONProperty (JDate d) =
     Inr (Some (case d of None \<Rightarrow> lit ''null'' | Some t \<Rightarrow> QuoteJSONString t))"
| "SerializeJSONProperty (JArray vs) =
     (case sequence (map SerializeJSONProperty vs) of
        Inl e \<Rightarrow> Inl e
      | Inr rs \<Rightarrow>
          Inr (Some (lit ''['' @
            join (lit '','') (map (\<lambda>r. case r of None \<Rightarrow> lit ''null'' | Some s \<Rightarrow> s) rs) @
            lit '']'')))"
| "SerializeJSONProperty (JObject ps) =
     (case sequence (map (\<lambda>(k, v). SerializeJSONProperty v) ps) of
        Inl e \<Rightarrow> Inl e
      | Inr rs \<Rightarrow>
          Inr (Some (lit ''{'' @
            join (lit '','')
              (concat (map (\<lambda>(k, r). case r of None \<Rightarrow> []
                                     | Some s \<Rightarrow> [QuoteJSONString k @ lit '':'' @ s])
                 (zip (map fst ps) rs))) @
            lit ''}'')))"

definition JSON_stringify :: "jsvalue \<Rightarrow> error_value + jsvalue" where
  "JSON_stringify v =
     (case SerializeJSONProperty v of
        Inl e \<Rightarrow> Inl e
      | Inr None \<Rightarrow> Inr JUndefined
      | Inr (Some s) \<Rightarrow> Inr (JString s))"

section \<open>The emptiness guard\<close>

text \<open>
  \<^verbatim>\<open>is-empty.guard.ts\<close>: \<open>null\<close> and \<open>undefined\<close> first, then the switch on \<open>typeof\<close>, whose
  default branch takes bigints, symbols and functions. \<open>Object.keys\<close> lists the own
  enumerable string keys. \<open>every\<close> skips the holes of a sparse array; a hole is written
  \<open>JUndefined\<close> here, which the guard finds empty, so the result is the same.

  The guard calls itself through \<open>value.every(isEmpty)\<close>, one activation inside the other
  for each level of nesting, and the call stack of the engine is finite: a call for which
  no room is left throws a RangeError. The first argument of \<open>isEmpty\<close> is the number of
  nested activations of the guard that the stack still admits when it is called.
\<close>

definition stack_overflow :: error_value where
  "stack_overflow = NativeError RangeError_class (lit ''Maximum call stack size exceeded'') []"

text \<open>
  \<open>Array.prototype.every\<close>: the elements in order, stopping at the first on which the
  callback is false or throws.
\<close>

fun every :: "('a \<Rightarrow> error_value + bool) \<Rightarrow> 'a list \<Rightarrow> error_value + bool" where
  "every f [] = Inr True"
| "every f (x # xs) =
     (case f x of Inl e \<Rightarrow> Inl e | Inr b \<Rightarrow> if b then every f xs else Inr False)"

fun isEmpty :: "nat \<Rightarrow> jsvalue \<Rightarrow> error_value + bool" where
  "isEmpty 0 v = Inl stack_overflow"
| "isEmpty (Suc d) JNull = Inr True"
| "isEmpty (Suc d) JUndefined = Inr True"
| "isEmpty (Suc d) (JNumber n) = Inr False"
| "isEmpty (Suc d) (JBoolean b) = Inr False"
| "isEmpty (Suc d) (JString s) = Inr (length (trim s) = 0)"
| "isEmpty (Suc d) (JDate t) = Inr False"
| "isEmpty (Suc d) (JArray vs) = (if length vs = 0 then Inr True else every (isEmpty d) vs)"
| "isEmpty (Suc d) (JObject ps) = Inr (length (map fst ps) = 0)"
| "isEmpty (Suc d) _ = Inr False"

text \<open>
  Emptiness as the documentation of the guard lists it, the least predicate closed under:
  null and undefined; a string that trims to nothing; an array all of whose elements are
  empty (an array without elements among them); an object that is neither a Date nor an
  array and has no own enumerable key.
\<close>

inductive empty_value :: "jsvalue \<Rightarrow> bool" where
  empty_null: "empty_value JNull"
| empty_undefined: "empty_value JUndefined"
| empty_string: "length (trim s) = 0 \<Longrightarrow> empty_value (JString s)"
| empty_array: "(\<And>v. v \<in> set vs \<Longrightarrow> empty_value v) \<Longrightarrow> empty_value (JArray vs)"
| empty_object: "empty_value (JObject [])"

text \<open>
  The activations of the guard that a value can need at once: one for the value, and for
  an array those of its deepest element on top.
\<close>

fun frames :: "jsvalue \<Rightarrow> nat" where
  "frames (JArray vs) = Suc (foldr max (map frames vs) 0)"
| "frames v = Suc 0"

text \<open>\<open>let a = []; for (let i = 0; i < n; i++) a = [a];\<close>\<close>

fun nested_array :: "nat \<Rightarrow> jsvalue" where
  "nested_array 0 = JArray []"
| "nested_array (Suc n) = JArray [nested_array n]"

section \<open>The request context\<close>

text \<open>
  Context objects have identity and a mutable field, so they live in a store; an address
  is an index into it. A field typed \<open>unknown\<close> holds a reference to a context object or
  any other value. \<open>class_of\<close> is the class the object was constructed with;
  \<open>AppRequestContext\<close> extends \<open>RequestContext\<close> and declares \<open>requestId\<close> without
  initialising it.
\<close>

type_synonym addr = nat

datatype ctx_class = RequestContext_class | AppRequestContext_class

datatype field_value = Obj addr | Val jsvalue

record context_obj =
  class_of :: ctx_class
  request :: field_value
  response :: field_value
  requestId :: jsvalue

text \<open>
  \<open>cls_store\<close> is what \<open>RequestContext.cls.getStore()\<close> returns to the running code: the
  context that the surrounding \<open>cls.run\<close> entered, or \<open>undefined\<close> (\<open>None\<close>) outside every
  run. Entering, leaving and carrying it over asynchronous continuations is the work of
  Node's \<open>AsyncLocalStorage\<close>.
\<close>

record state =
  cls_store :: "addr option"
  heap :: "context_obj list"

definition heap_lookup :: "state \<Rightarrow> addr \<Rightarrow> context_obj option" where
  "heap_lookup st a = (if a < length (heap st) then Some (heap st ! a) else None)"

definition RequestContext_new :: "field_value \<Rightarrow> field_value \<Rightarrow> state \<Rightarrow> addr \<times> state" where
  "RequestContext_new req res st =
     (length (heap st),
      st\<lparr>heap := heap st @
        [\<lparr>class_of = RequestContext_class, request = req, response = res,
          requestId = JUndefined\<rparr>]\<rparr>)"

definition AppRequestContext_new :: "field_value \<Rightarrow> field_value \<Rightarrow> state \<Rightarrow> addr \<times> state" where
  "AppRequestContext_new req res st =
     (length (heap st),
      st\<lparr>heap := heap st @
        [\<lparr>class_of = AppRequestContext_class, request = req, response = res,
          requestId = JUndefined\<rparr>]\<rparr>)"

definition currentContext :: "state \<Rightarrow> addr option" where
  "currentContext st = cls_store st"

text \<open>\<open>x instanceof AppRequestContext\<close>: only an object constructed by that class.\<close>

fun instanceof_AppRequestContext :: "state \<Rightarrow> field_value \<Rightarrow> bool" where
  "instanceof_AppRequestContext st (Obj a) =
     (case heap_lookup st a of
        Some obj \<Rightarrow> class_of obj = AppRequestContext_class
      | None \<Rightarrow> False)"
| "instanceof_AppRequestContext st (Val v) = False"

definition context_error :: error_value where
  "context_error =
     NativeError Error_class (lit ''Current context is not an instance of AppRequestContext'') []"

text \<open>
  \<open>RequestContextService.getContext\<close>. \<open>ctx\<close> is \<open>RequestContext.currentContext?.request\<close>:
  \<open>undefined\<close> when no context is current, the \<open>request\<close> field of the current context
  otherwise.
\<close>

definition getContext :: "state \<Rightarrow> error_value + addr" where
  "getContext st =
     (let ctx = (case currentContext st of
                   None \<Rightarrow> Val JUndefined
                 | Some c \<Rightarrow> (case heap_lookup st c of
                                None \<Rightarrow> Val JUndefined
                              | Some obj \<Rightarrow> request obj))
      in if instanceof_AppRequestContext st ctx
         then (case ctx of Obj a \<Rightarrow> Inr a | Val v \<Rightarrow> Inl context_error)
         else Inl context_error)"

definition setRequestId :: "js_string \<Rightarrow> state \<Rightarrow> error_value + state" where
  "setRequestId ident st =
     (case getContext st of
        Inl e \<Rightarrow> Inl e
      | Inr ctx \<Rightarrow>
          Inr (st\<lparr>heap := (heap st)[ctx := (heap st ! ctx)\<lparr>requestId := JString ident\<rparr>]\<rparr>))"

definition getRequestId :: "state \<Rightarrow> error_value + jsvalue" where
  "getRequestId st =
     (case getContext st of
        Inl e \<Rightarrow> Inl e
      | Inr ctx \<Rightarrow> Inr (requestId (heap st ! ctx)))"

text \<open>
  The accessor as the specification words it: the ambient context itself is narrowed to
  the subtype and returned.
\<close>

definition getContext_spec :: "state \<Rightarrow> error_value + addr" where
  "getContext_spec st =
     (case currentContext st of
        None \<Rightarrow> Inl context_error
      | Some c \<Rightarrow>
          if instanceof_AppRequestContext st (Obj c) then Inr c else Inl context_error)"

text \<open>The \<open>requestId\<close> of the ambient context itself, when there is an ambient context.\<close>

definition ambient_requestId :: "state \<Rightarrow> jsvalue option" where
  "ambient_requestId st =
     (case currentContext st of
        None \<Rightarrow> None
      | Some c \<Rightarrow> map_option requestId (heap_lookup st c))"

section \<open>Exceptions\<close>

text \<open>
  The constructor of \<open>ExceptionBase\<close>. \<open>code\<close> is the field initialiser of the concrete
  kind; \<open>stk\<close> is the text \<open>Error.captureStackTrace\<close> leaves in \<open>stack\<close>. When \<open>getContext\<close>
  throws, the constructor throws and there is no exception object.
\<close>

definition ExceptionBase_new ::
  "js_string \<Rightarrow> js_string \<Rightarrow> js_string \<Rightarrow> error_value option \<Rightarrow>
   (js_string \<times> jsvalue) list option \<Rightarrow> state \<Rightarrow> error_value + exception" where
  "ExceptionBase_new kind_code stk msg cause_arg metadata_arg st =
     (case getContext st of
        Inl e \<Rightarrow> Inl e
      | Inr ctx \<Rightarrow>
          Inr (Exception msg kind_code stk (requestId (heap st ! ctx)) cause_arg metadata_arg))"

text \<open>
  Modelled from the spec: the module \<^verbatim>\<open>exception.codes\<close> is not among the sources; the specification
  gives the code of the not-found kind as the string \<open>NOT_FOUND\<close>.
\<close>

definition NOT_FOUND :: js_string where
  "NOT_FOUND = lit ''NOT_FOUND''"

text \<open>\<open>NotFoundException\<close>: the message defaults to \<open>Not found\<close>; no cause, no metadata.\<close>

definition NotFoundException_new ::
  "js_string \<Rightarrow> js_string option \<Rightarrow> state \<Rightarrow> error_value + exception" where
  "NotFoundException_new stk msg st =
     ExceptionBase_new NOT_FOUND stk
       (case msg of None \<Rightarrow> lit ''Not found'' | Some m \<Rightarrow> m) None None st"

text \<open>The properties of the object literal that \<open>toJSON\<close> returns, in its order.\<close>

definition SerializedException_props :: "SerializedException \<Rightarrow> (js_string \<times> jsvalue) list" where
  "SerializedException_props r =
     [(lit ''message'', JString (ser_message r)),
      (lit ''code'', JString (ser_code r)),
      (lit ''stack'', JString (ser_stack r)),
      (lit ''correlationId'', ser_correlationId r),
      (lit ''cause'', ser_cause r),
      (lit ''metadata'', ser_metadata r)]"

text \<open>
  \<open>ExceptionBase.toJSON\<close>, and \<open>JSON.stringify\<close> on an error object: a built-in error is
  serialised as an ordinary object, an exception through its own \<open>toJSON\<close>.
\<close>

fun toJSON :: "exception \<Rightarrow> error_value + SerializedException"
  and JSON_stringify_error :: "error_value \<Rightarrow> error_value + jsvalue" where
  "toJSON (Exception msg kind_code stk cid cause_opt metadata_opt) =
     (case (case cause_opt of None \<Rightarrow> JSON_stringify JUndefined
                            | Some err \<Rightarrow> JSON_stringify_error err) of
        Inl e \<Rightarrow> Inl e
      | Inr c \<Rightarrow>
          Inr \<lparr>ser_message = msg, ser_code = kind_code, ser_correlationId = cid,
               ser_stack = stk, ser_cause = c,
               ser_metadata = (case metadata_opt of None \<Rightarrow> JUndefined | Some ps \<Rightarrow> JObject ps)\<rparr>)"
| "JSON_stringify_error (NativeError k msg ps) = JSON_stringify (JObject ps)"
| "JSON_stringify_error (DomainException e) =
     (case toJSON e of
        Inl t \<Rightarrow> Inl t
      | Inr r \<Rightarrow> JSON_stringify (JObject (SerializedException_props r)))"

section \<open>Well-formed stores and sample states\<close>

text \<open>
  \<open>request\<close> is assigned once, by the constructor, so a context can only refer to a context
  that was constructed before it.
\<close>

definition wf_heap :: "state \<Rightarrow> bool" where
  "wf_heap st \<longleftrightarrow>
     (\<forall>a < length (heap st). case request (heap st ! a) of Obj b \<Rightarrow> b < a | Val v \<Rightarrow> True)"

definition initial_state :: state where
  "initial_state = \<lparr>cls_store = None, heap = []\<rparr>"

definition inbound :: jsvalue where
  "inbound = JObject [(lit ''url'', JString (lit ''/widgets''))]"

definition outbound :: jsvalue where
  "outbound = JObject []"

text \<open>
  The wiring under which \<open>getContext\<close> succeeds: an \<open>AppRequestContext\<close> is constructed, a
  \<open>RequestContext\<close> with that object as its \<open>request\<close> is constructed and entered.
  \<open>setRequestId\<close> has not been called.
\<close>

definition fresh_state :: state where
  "fresh_state =
     (let (r, st1) = AppRequestContext_new (Val inbound) (Val outbound) initial_state;
          (c, st2) = RequestContext_new (Obj r) (Val outbound) st1
      in st2\<lparr>cls_store := Some c\<rparr>)"

text \<open>The same wiring with \<open>requestId\<close> set to \<open>rid\<close>.\<close>

definition wired_state :: "js_string \<Rightarrow> state" where
  "wired_state rid =
     \<lparr>cls_store = Some 1,
      heap = [\<lparr>class_of = AppRequestContext_class, request = Val inbound,
               response = Val outbound, requestId = JString rid\<rparr>,
              \<lparr>class_of = RequestContext_class, request = Obj 0,
               response = Val outbound, requestId = JUndefined\<rparr>]\<rparr>"

text \<open>
  An \<open>AppRequestContext\<close> with \<open>requestId\<close> \<open>abc\<close> entered as the ambient context itself, its
  \<open>request\<close> being the inbound request.
\<close>

definition direct_state :: state where
  "direct_state =
     \<lparr>cls_store = Some 0,
      heap = [\<lparr>class_of = AppRequestContext_class, request = Val inbound,
               response = Val outbound, requestId = JString (lit ''abc'')\<rparr>]\<rparr>"

text \<open>
  An \<open>AppRequestContext\<close> with \<open>requestId\<close> \<open>abc\<close> entered as the ambient context, its \<open>request\<close>
  being another \<open>AppRequestContext\<close>, whose \<open>requestId\<close> is \<open>xyz\<close>.
\<close>

definition nested_state :: state where
  "nested_state =
     \<lparr>cls_store = Some 1,
      heap = [\<lparr>class_of = AppRequestContext_class, request = Val inbound,
               response = Val outbound, requestId = JString (lit ''xyz'')\<rparr>,
              \<lparr>class_of = AppRequestContext_class, request = Obj 0,
               response = Val outbound, requestId = JString (lit ''abc'')\<rparr>]\<rparr>"

section \<open>The emptiness guard and the expected predicate\<close>

inductive_simps empty_value_simps:
  "empty_value JUndefined" "empty_value JNull" "empty_value (JBoolean b)"
  "empty_value (JNumber n)" "empty_value (JBigInt i)" "empty_value (JString s)"
  "empty_value JSymbol" "empty_value JFunction" "empty_value (JDate d)"
  "empty_value (JArray vs)" "empty_value (JObject ps)"

lemma every_all:
  assumes "\<And>x. x \<in> set xs \<Longrightarrow> f x = Inr (P x)"
  shows "every f xs = Inr (\<forall>x \<in> set xs. P x)"
  using assms by (induction xs) auto

lemma every_sound:
  assumes "every f xs = Inr b" and "\<And>x c. x \<in> set xs \<Longrightarrow> f x = Inr c \<Longrightarrow> c = P x"
  shows "b = (\<forall>x \<in> set xs. P x)"
  using assms
proof (induction xs)
  case Nil
  then show ?case by simp
next
  case (Cons x xs)
  from Cons.prems(1) obtain c where c: "f x = Inr c"
    by (auto split: sum.splits)
  then have cP: "c = P x"
    using Cons.prems(2) by simp
  show ?case
  proof (cases c)
    case True
    then have "every f xs = Inr b"
      using Cons.prems(1) c by simp
    then have "b = (\<forall>x \<in> set xs. P x)"
      using Cons.IH Cons.prems(2) by simp
    with True cP show ?thesis by simp
  next
    case False
    then have "b = False"
      using Cons.prems(1) c by simp
    with False cP show ?thesis by simp
  qed
qed

lemma every_Inl:
  assumes "every f xs = Inl e"
  shows "\<exists>x \<in> set xs. f x = Inl e"
  using assms by (induction xs) (auto split: sum.splits if_splits)

lemma frames_element: "x \<in> set vs \<Longrightarrow> frames x \<le> foldr max (map frames vs) 0"
  by (induction vs) auto

lemma isEmpty_sound: "isEmpty d v = Inr b \<Longrightarrow> b = empty_value v"
proof (induction d arbitrary: v b)
  case 0
  then show ?case by simp
next
  case (Suc d)
  show ?case
  proof (cases v)
    case (JArray vs)
    show ?thesis
    proof (cases "vs = []")
      case True
      with Suc.prems JArray show ?thesis
        by (simp add: empty_value_simps)
    next
      case False
      then have "every (isEmpty d) vs = Inr b"
        using Suc.prems JArray by simp
      then have "b = (\<forall>x \<in> set vs. empty_value x)"
        using Suc.IH by (rule every_sound)
      with JArray show ?thesis
        by (auto simp: empty_value_simps)
    qed
  qed (use Suc.prems in \<open>auto simp: empty_value_simps\<close>)
qed

lemma isEmpty_enough_stack: "frames v \<le> d \<Longrightarrow> isEmpty d v = Inr (empty_value v)"
proof (induction d arbitrary: v)
  case 0
  then show ?case by (cases v) simp_all
next
  case (Suc d)
  show ?case
  proof (cases v)
    case (JArray vs)
    have "isEmpty d x = Inr (empty_value x)" if "x \<in> set vs" for x
      using Suc.prems JArray frames_element [OF that] by (intro Suc.IH) simp
    then have "every (isEmpty d) vs = Inr (\<forall>x \<in> set vs. empty_value x)"
      by (rule every_all)
    with JArray show ?thesis
      by (auto simp: empty_value_simps)
  qed (simp_all add: empty_value_simps)
qed

lemma isEmpty_Inl: "isEmpty d v = Inl e \<Longrightarrow> e = stack_overflow"
proof (induction d arbitrary: v)
  case 0
  then show ?case by simp
next
  case (Suc d)
  show ?case
  proof (cases v)
    case (JArray vs)
    with Suc.prems have "every (isEmpty d) vs = Inl e"
      by (simp split: if_splits)
    then obtain x where "isEmpty d x = Inl e"
      using every_Inl by blast
    then show ?thesis
      by (rule Suc.IH)
  qed (use Suc.prems in auto)
qed

lemma isEmpty_nested_array_overflow: "d \<le> n \<Longrightarrow> isEmpty d (nested_array n) = Inl stack_overflow"
proof (induction d arbitrary: n)
  case 0
  then show ?case by simp
next
  case (Suc d)
  then obtain m where "n = Suc m" "d \<le> m"
    by (cases n) auto
  with Suc.IH show ?case by simp
qed

lemma empty_value_nested_array: "empty_value (nested_array n)"
  by (induction n) (auto simp: empty_value_simps)

text \<open>
  C10 as stated fails. An array that holds one array that holds one array, and so on
  100000 deep down to an empty array, has no cycle and all its elements are recursively
  empty, so the guard should return true; with room for 10000 nested activations on the
  stack (and with any room below the depth) the guard throws a RangeError instead.
\<close>

theorem isEmpty_deep_array_counterexample:
  "isEmpty 10000 (nested_array 100000) = Inl stack_overflow
   \<and> empty_value (nested_array 100000)"
  using isEmpty_nested_array_overflow [of 10000 100000] empty_value_nested_array [of 100000]
  by simp

text \<open>
  C10, amended. On every value without cycles built from primitives, Dates, arrays and
  ordinary objects, \<open>isEmpty\<close> terminates: it returns a boolean or throws the RangeError of
  an exhausted call stack, and it returns a boolean whenever the nesting of arrays fits the
  stack. Whenever it returns, it returns true exactly when the value is null or undefined,
  a string whose trimmed length is zero, an array that is empty or all of whose elements
  are recursively empty, or an object other than a Date or an array with no own enumerable
  keys. Called with room on the stack it returns false for every number, every boolean and
  every Date.
\<close>

theorem isEmpty_characterised:
  "(frames v \<le> d \<longrightarrow> isEmpty d v = Inr (empty_value v))
   \<and> (isEmpty d v = Inr b \<longrightarrow> b = empty_value v)
   \<and> (isEmpty d v = Inl e \<longrightarrow> e = stack_overflow)
   \<and> isEmpty (Suc d) (JNumber n) = Inr False
   \<and> isEmpty (Suc d) (JBoolean c) = Inr False
   \<and> isEmpty (Suc d) (JDate t) = Inr False"
  using isEmpty_enough_stack [of v d] isEmpty_sound [of d v b] isEmpty_Inl [of d v e]
  by simp

theorem isEmpty_characterised_witness:
  "isEmpty 2 (JArray [JNull, JUndefined, JString (lit ''''), JString (lit ''   ''), JArray []])
     = Inr True
   \<and> empty_value (JArray [JNull, JUndefined, JString (lit ''''), JString (lit ''   ''), JArray []])
   \<and> isEmpty 2 (JArray [JNumber (Finite (lit ''1'')), JString (lit ''hello''), JObject []])
     = Inr False
   \<and> isEmpty 1 (JObject [(lit ''key'', JUndefined)]) = Inr False
   \<and> isEmpty 1 (JNumber (Finite (lit ''0''))) = Inr False
   \<and> isEmpty 1 (JBoolean False) = Inr False
   \<and> isEmpty 1 (JDate (Some (lit ''2024-01-01T00:00:00.000Z''))) = Inr False"
  using isEmpty_characterised
      [of "JArray [JNull, JUndefined, JString (lit ''''), JString (lit ''   ''), JArray []]" 2]
    isEmpty_characterised
      [of JNull 0 True _ "Finite (lit ''0'')" False "Some (lit ''2024-01-01T00:00:00.000Z'')"]
    isEmpty_characterised
      [of "JArray [JNumber (Finite (lit ''1'')), JString (lit ''hello''), JObject []]" 2]
    isEmpty_characterised [of "JObject [(lit ''key'', JUndefined)]" 1]
  by (simp add: lit_def trim_def isWhiteSpace_def empty_value_simps numeral_2_eq_2)

section \<open>The accessor\<close>

lemma getContext_Inr_iff:
  "getContext st = Inr r \<longleftrightarrow>
     (\<exists>c obj. currentContext st = Some c \<and> heap_lookup st c = Some obj \<and> request obj = Obj r
        \<and> instanceof_AppRequestContext st (Obj r))"
  by (auto simp: getContext_def Let_def split: option.splits field_value.splits)

lemma getContext_Inl: "getContext st = Inl e \<Longrightarrow> e = context_error"
  by (auto simp: getContext_def Let_def split: option.splits field_value.splits if_splits)

lemma getContext_total: "getContext st = Inl context_error \<or> (\<exists>r. getContext st = Inr r)"
  by (cases "getContext st") (auto dest: getContext_Inl)

lemma getContext_no_context: "currentContext st = None \<Longrightarrow> getContext st = Inl context_error"
  by (simp add: getContext_def)

lemma getContext_in_heap: "getContext st = Inr r \<Longrightarrow> r < length (heap st)"
  by (auto simp: getContext_Inr_iff heap_lookup_def split: if_splits option.splits)

text \<open>
  C1 as stated fails. In \<open>direct_state\<close> the ambient context is present and is an
  \<open>AppRequestContext\<close> carrying \<open>requestId\<close>, so the accessor as worded returns that instance;
  the code looks at the ambient context's \<open>request\<close> field, finds the inbound request there,
  and throws.
\<close>

theorem getContext_ambient_subtype_counterexample:
  "getContext_spec direct_state = Inr 0 \<and> getContext direct_state = Inl context_error"
  by (simp add: getContext_spec_def getContext_def currentContext_def heap_lookup_def
        direct_state_def)

text \<open>
  C1, amended. \<open>getContext\<close> returns an object exactly when there is an ambient context and
  the \<open>request\<close> field of that context refers to an instance of \<open>AppRequestContext\<close>, and the
  object returned is that instance. In every other case (no ambient context, or a \<open>request\<close>
  field that is not such an instance) it throws a plain \<open>Error\<close>, which is not an exception
  of the domain taxonomy.
\<close>

theorem getContext_returns_request_field:
  "(getContext st = Inr r \<longleftrightarrow>
      (\<exists>c obj. currentContext st = Some c \<and> heap_lookup st c = Some obj \<and> request obj = Obj r
         \<and> instanceof_AppRequestContext st (Obj r)))
   \<and> ((\<forall>r'. getContext st \<noteq> Inr r') \<longrightarrow> getContext st = Inl context_error)
   \<and> context_error \<noteq> DomainException e"
  using getContext_Inr_iff [of st r] getContext_total [of st]
  by (auto simp: context_error_def)

theorem getContext_returns_request_field_witness:
  "getContext (wired_state (lit ''abc'')) = Inr 0
   \<and> currentContext (wired_state (lit ''abc'')) = Some 1
   \<and> getContext initial_state = Inl context_error"
  using getContext_returns_request_field [of "wired_state (lit ''abc'')" 0]
    getContext_returns_request_field [of initial_state]
  by (simp add: wired_state_def initial_state_def currentContext_def heap_lookup_def)

subsection \<open>Construction order\<close>

lemma wf_heap_initial: "wf_heap initial_state"
  by (simp add: wf_heap_def initial_state_def)

lemma wf_heap_RequestContext_new:
  assumes "wf_heap st" and "\<And>b. req = Obj b \<Longrightarrow> b < length (heap st)"
  shows "wf_heap (snd (RequestContext_new req res st))"
  using assms
  by (auto simp: wf_heap_def RequestContext_new_def nth_append less_Suc_eq
           split: field_value.splits)

lemma wf_heap_AppRequestContext_new:
  assumes "wf_heap st" and "\<And>b. req = Obj b \<Longrightarrow> b < length (heap st)"
  shows "wf_heap (snd (AppRequestContext_new req res st))"
  using assms
  by (auto simp: wf_heap_def AppRequestContext_new_def nth_append less_Suc_eq
           split: field_value.splits)

lemma wf_heap_enter: "wf_heap st \<Longrightarrow> wf_heap (st\<lparr>cls_store := c\<rparr>)"
  by (simp add: wf_heap_def)

lemma wf_heap_setRequestId:
  assumes "wf_heap st" and "setRequestId ident st = Inr st'"
  shows "wf_heap st'"
proof -
  from assms(2) obtain r where r: "getContext st = Inr r"
    and st': "st' = st\<lparr>heap := (heap st)[r := (heap st ! r)\<lparr>requestId := JString ident\<rparr>]\<rparr>"
    by (auto simp: setRequestId_def split: sum.splits)
  have "r < length (heap st)"
    using r by (rule getContext_in_heap)
  then show ?thesis
    using assms(1) unfolding st' wf_heap_def
    by (auto simp: nth_list_update)
qed

lemma wf_heap_request_below:
  assumes "wf_heap st" and "heap_lookup st c = Some obj" and "request obj = Obj r"
  shows "r < c"
  using assms by (auto simp: wf_heap_def heap_lookup_def split: if_splits)

text \<open>
  C8 as stated fails in its last clause. In \<open>nested_state\<close> an \<open>AppRequestContext\<close> is stored
  directly as the ambient context, in a store the constructors can build, and \<open>getContext\<close>
  does not throw: the \<open>request\<close> of that context is another \<open>AppRequestContext\<close>, which is
  returned.
\<close>

theorem getContext_stored_subtype_counterexample:
  "currentContext nested_state = Some 1
   \<and> instanceof_AppRequestContext nested_state (Obj 1)
   \<and> wf_heap nested_state
   \<and> getContext nested_state = Inr 0"
  by (simp add: nested_state_def currentContext_def heap_lookup_def wf_heap_def less_Suc_eq
        getContext_def)

text \<open>
  C8, amended. When \<open>getContext\<close> succeeds, what it returns is the \<open>request\<close> field of the
  stored context, an instance of \<open>AppRequestContext\<close>; in a store built by the constructors
  this is never the stored context itself. So success needs a stored context whose
  \<open>request\<close> field is such an instance, and the class of the stored context plays no part:
  with a context stored, an \<open>AppRequestContext\<close> or not, \<open>getContext\<close> throws exactly when the
  \<open>request\<close> field of the stored context is not an instance of \<open>AppRequestContext\<close>.
\<close>

theorem getContext_success_is_request_field:
  "(getContext st = Inr r \<longrightarrow>
      (\<exists>c obj. currentContext st = Some c \<and> heap_lookup st c = Some obj \<and> request obj = Obj r
         \<and> instanceof_AppRequestContext st (Obj r) \<and> (wf_heap st \<longrightarrow> r \<noteq> c)))
   \<and> (currentContext st = Some c' \<and> heap_lookup st c' = Some obj' \<longrightarrow>
        (getContext st = Inl context_error
           \<longleftrightarrow> \<not> instanceof_AppRequestContext st (request obj')))"
proof (intro conjI impI)
  assume "getContext st = Inr r"
  then obtain c obj where *: "currentContext st = Some c" "heap_lookup st c = Some obj"
    "request obj = Obj r" "instanceof_AppRequestContext st (Obj r)"
    by (auto simp: getContext_Inr_iff)
  have "wf_heap st \<longrightarrow> r \<noteq> c"
    using wf_heap_request_below [OF _ *(2,3)] by auto
  with * show "\<exists>c obj. currentContext st = Some c \<and> heap_lookup st c = Some obj
      \<and> request obj = Obj r \<and> instanceof_AppRequestContext st (Obj r) \<and> (wf_heap st \<longrightarrow> r \<noteq> c)"
    by blast
next
  assume "currentContext st = Some c' \<and> heap_lookup st c' = Some obj'"
  then show "getContext st = Inl context_error
      \<longleftrightarrow> \<not> instanceof_AppRequestContext st (request obj')"
    by (auto simp: getContext_def Let_def split: field_value.splits)
qed

theorem getContext_success_is_request_field_witness:
  "getContext (wired_state (lit ''abc'')) = Inr 0
   \<and> currentContext (wired_state (lit ''abc'')) = Some 1
   \<and> wf_heap (wired_state (lit ''abc''))
   \<and> currentContext direct_state = Some 0
   \<and> instanceof_AppRequestContext direct_state (Obj 0)
   \<and> \<not> instanceof_AppRequestContext direct_state (request (heap direct_state ! 0))
   \<and> getContext direct_state = Inl context_error"
  using getContext_success_is_request_field [of "wired_state (lit ''abc'')" 0]
    getContext_success_is_request_field [of direct_state _ 0 "heap direct_state ! 0"]
  by (simp add: wired_state_def direct_state_def currentContext_def heap_lookup_def
        wf_heap_def less_Suc_eq getContext_def)

subsection \<open>Reading and writing \<open>requestId\<close>\<close>

lemma AppRequestContext_new_fresh:
  assumes "AppRequestContext_new req res st0 = (r, st1)"
  shows "heap_lookup st1 r =
    Some \<lparr>class_of = AppRequestContext_class, request = req, response = res,
          requestId = JUndefined\<rparr>"
  using assms by (auto simp: AppRequestContext_new_def heap_lookup_def)

lemma getRequestId_reads:
  assumes "getContext st = Inr r" and "heap_lookup st r = Some robj"
  shows "getRequestId st = Inr (requestId robj)"
  using assms by (auto simp: getRequestId_def heap_lookup_def split: if_splits)

lemma ExceptionBase_new_reads:
  assumes "getContext st = Inr r" and "heap_lookup st r = Some robj"
  shows "ExceptionBase_new k s m ca md st = Inr (Exception m k s (requestId robj) ca md)"
  using assms by (auto simp: ExceptionBase_new_def heap_lookup_def split: if_splits)

lemma getContext_setRequestId:
  assumes "getContext st = Inr r"
  shows "\<exists>st'. setRequestId ident st = Inr st' \<and> getContext st' = Inr r
           \<and> heap_lookup st' r
               = map_option (\<lambda>obj. obj\<lparr>requestId := JString ident\<rparr>) (heap_lookup st r)
           \<and> cls_store st' = cls_store st"
proof -
  let ?st' = "st\<lparr>heap := (heap st)[r := (heap st ! r)\<lparr>requestId := JString ident\<rparr>]\<rparr>"
  from assms obtain c obj where c: "cls_store st = Some c" "heap_lookup st c = Some obj"
    "request obj = Obj r" "instanceof_AppRequestContext st (Obj r)"
    by (auto simp: getContext_Inr_iff currentContext_def)
  have r: "r < length (heap st)"
    using assms by (rule getContext_in_heap)
  have cl: "c < length (heap st)"
    using c(2) by (auto simp: heap_lookup_def split: if_splits)
  have set: "setRequestId ident st = Inr ?st'"
    using assms by (simp add: setRequestId_def)
  have "heap_lookup ?st' c = Some (if c = r then obj\<lparr>requestId := JString ident\<rparr> else obj)"
    using c(2) r cl by (auto simp: heap_lookup_def nth_list_update split: if_splits)
  moreover have "instanceof_AppRequestContext ?st' (Obj r)"
    using c(4) r by (auto simp: heap_lookup_def split: if_splits)
  ultimately have "getContext ?st' = Inr r"
    using c(1,3) by (auto simp: getContext_Inr_iff currentContext_def)
  moreover have "heap_lookup ?st' r
      = map_option (\<lambda>obj. obj\<lparr>requestId := JString ident\<rparr>) (heap_lookup st r)"
    using r by (simp add: heap_lookup_def)
  ultimately show ?thesis
    using set by simp
qed

lemma fresh_state_eq:
  "fresh_state =
     \<lparr>cls_store = Some 1,
      heap = [\<lparr>class_of = AppRequestContext_class, request = Val inbound,
               response = Val outbound, requestId = JUndefined\<rparr>,
              \<lparr>class_of = RequestContext_class, request = Obj 0,
               response = Val outbound, requestId = JUndefined\<rparr>]\<rparr>"
  by (simp add: fresh_state_def initial_state_def AppRequestContext_new_def
        RequestContext_new_def)

text \<open>
  C9. Let \<open>r\<close> be an \<open>AppRequestContext\<close> as its constructor left it (\<open>setRequestId\<close> has not
  been called for it), and let it be the \<open>request\<close> of the ambient context. Then
  \<open>getRequestId\<close> returns \<open>undefined\<close> (it does not throw), an exception constructed now has
  \<open>correlationId\<close> \<open>undefined\<close>, and after \<open>setRequestId(ident)\<close> \<open>getRequestId\<close> returns
  \<open>ident\<close>.
\<close>

theorem requestId_undefined_until_set:
  assumes "AppRequestContext_new req res st0 = (r, st1)"
    and "heap_lookup st r = heap_lookup st1 r"
    and "currentContext st = Some c" and "heap_lookup st c = Some obj" and "request obj = Obj r"
  shows "getRequestId st = Inr JUndefined
    \<and> ExceptionBase_new k s m ca md st = Inr (Exception m k s JUndefined ca md)
    \<and> (\<exists>st'. setRequestId ident st = Inr st' \<and> getRequestId st' = Inr (JString ident))"
proof -
  have fresh: "heap_lookup st r =
    Some \<lparr>class_of = AppRequestContext_class, request = req, response = res,
          requestId = JUndefined\<rparr>"
    using assms(1,2) by (simp add: AppRequestContext_new_fresh)
  then have ctx: "getContext st = Inr r"
    using assms(3-5) by (simp add: getContext_Inr_iff)
  obtain st' where st': "setRequestId ident st = Inr st'" "getContext st' = Inr r"
    "heap_lookup st' r
       = map_option (\<lambda>obj. obj\<lparr>requestId := JString ident\<rparr>) (heap_lookup st r)"
    using getContext_setRequestId [OF ctx] by blast
  have "getRequestId st' = Inr (JString ident)"
    using getRequestId_reads [OF st'(2)] st'(3) fresh by simp
  with st'(1) show ?thesis
    using getRequestId_reads [OF ctx fresh] ExceptionBase_new_reads [OF ctx fresh] by simp
qed

theorem requestId_undefined_until_set_witness:
  "getRequestId fresh_state = Inr JUndefined
   \<and> NotFoundException_new (lit ''Error: Not found'') None fresh_state
       = Inr (Exception (lit ''Not found'') NOT_FOUND (lit ''Error: Not found'') JUndefined
                None None)
   \<and> setRequestId (lit ''r-1'') fresh_state = Inr (wired_state (lit ''r-1''))
   \<and> getRequestId (wired_state (lit ''r-1'')) = Inr (JString (lit ''r-1''))"
  using requestId_undefined_until_set
    [of "Val inbound" "Val outbound" initial_state 0
        "snd (AppRequestContext_new (Val inbound) (Val outbound) initial_state)"
        fresh_state 1 "heap fresh_state ! 1"
        NOT_FOUND "lit ''Error: Not found''" "lit ''Not found''" None None "lit ''r-1''"]
  by (simp add: fresh_state_eq NotFoundException_new_def heap_lookup_def currentContext_def
        AppRequestContext_new_def initial_state_def setRequestId_def getRequestId_def
        getContext_def wired_state_def)

section \<open>Construction of exceptions\<close>

lemma ExceptionBase_new_Inr:
  assumes "ExceptionBase_new k s m ca md st = Inr e"
  shows "\<exists>r. getContext st = Inr r \<and> e = Exception m k s (requestId (heap st ! r)) ca md"
  using assms by (auto simp: ExceptionBase_new_def split: sum.splits)

lemma toJSON_correlationId: "toJSON e = Inr j \<Longrightarrow> ser_correlationId j = correlationId e"
  by (cases e) (auto split: sum.splits)

text \<open>
  C2 as stated fails. In \<open>direct_state\<close> the ambient context has \<open>requestId\<close> \<open>abc\<close> and the
  construction throws instead of yielding an exception; in \<open>nested_state\<close> the ambient
  context has \<open>requestId\<close> \<open>abc\<close>, the construction succeeds, and the exception's
  \<open>correlationId\<close> is \<open>xyz\<close>, the \<open>requestId\<close> of the context in the \<open>request\<close> field.
\<close>

theorem correlationId_of_ambient_counterexample:
  "ambient_requestId direct_state = Some (JString (lit ''abc''))
   \<and> NotFoundException_new (lit ''Error: Widget missing'') (Some (lit ''Widget missing''))
       direct_state = Inl context_error
   \<and> ambient_requestId nested_state = Some (JString (lit ''abc''))
   \<and> NotFoundException_new (lit ''Error: Widget missing'') (Some (lit ''Widget missing''))
       nested_state
     = Inr (Exception (lit ''Widget missing'') NOT_FOUND (lit ''Error: Widget missing'')
              (JString (lit ''xyz'')) None None)
   \<and> JString (lit ''xyz'') \<noteq> JString (lit ''abc'')"
  by (simp add: ambient_requestId_def nested_state_def direct_state_def
        NotFoundException_new_def ExceptionBase_new_def getContext_def currentContext_def
        heap_lookup_def lit_def)

text \<open>
  C2, amended. For every exception constructed while the \<open>request\<close> field of the ambient
  context is an \<open>AppRequestContext\<close> whose \<open>requestId\<close> is the string \<open>rid\<close> (\<open>abc\<close>, say), the
  construction succeeds and the exception's \<open>correlationId\<close> is \<open>rid\<close>. The field is a copy
  of the string, and \<open>toJSON\<close>, the one operation of the class, reads it back unchanged.
\<close>

theorem correlationId_is_requestId_of_request_field:
  assumes "currentContext st = Some c" and "heap_lookup st c = Some obj"
    and "request obj = Obj r" and "heap_lookup st r = Some robj"
    and "class_of robj = AppRequestContext_class" and "requestId robj = JString rid"
  shows "\<exists>e. ExceptionBase_new k s m ca md st = Inr e \<and> correlationId e = JString rid
    \<and> (\<forall>j. toJSON e = Inr j \<longrightarrow> ser_correlationId j = JString rid)"
proof -
  have "getContext st = Inr r"
    using assms(1-5) by (simp add: getContext_Inr_iff)
  then have "ExceptionBase_new k s m ca md st = Inr (Exception m k s (JString rid) ca md)"
    using ExceptionBase_new_reads [OF _ assms(4)] assms(6) by simp
  then show ?thesis
    using toJSON_correlationId [of "Exception m k s (JString rid) ca md"]
    by (simp del: toJSON.simps)
qed

theorem correlationId_is_requestId_of_request_field_witness:
  "ExceptionBase_new (lit ''CONFLICT'') (lit ''Error: taken'') (lit ''taken'') None None
     (wired_state (lit ''abc''))
   = Inr (Exception (lit ''taken'') (lit ''CONFLICT'') (lit ''Error: taken'')
            (JString (lit ''abc'')) None None)
   \<and> toJSON (Exception (lit ''taken'') (lit ''CONFLICT'') (lit ''Error: taken'')
            (JString (lit ''abc'')) None None)
     = Inr \<lparr>ser_message = lit ''taken'', ser_code = lit ''CONFLICT'',
            ser_correlationId = JString (lit ''abc''), ser_stack = lit ''Error: taken'',
            ser_cause = JUndefined, ser_metadata = JUndefined\<rparr>"
  using correlationId_is_requestId_of_request_field
    [of "wired_state (lit ''abc'')" 1 "heap (wired_state (lit ''abc'')) ! 1" 0
        "heap (wired_state (lit ''abc'')) ! 0" "lit ''abc''"
        "lit ''CONFLICT''" "lit ''Error: taken''" "lit ''taken''" None None]
  by (simp add: wired_state_def currentContext_def heap_lookup_def ExceptionBase_new_def
        getContext_def JSON_stringify_def)

text \<open>
  C3 as stated fails. In \<open>fresh_state\<close> a request context is active and the construction
  succeeds, yet the exception's \<open>correlationId\<close> is \<open>undefined\<close>: an active context does not
  make the field populated.
\<close>

theorem correlationId_populated_counterexample:
  "currentContext fresh_state \<noteq> None
   \<and> NotFoundException_new (lit ''Error: Not found'') None fresh_state
       = Inr (Exception (lit ''Not found'') NOT_FOUND (lit ''Error: Not found'') JUndefined
                None None)"
  by (simp add: fresh_state_eq NotFoundException_new_def ExceptionBase_new_def getContext_def
        currentContext_def heap_lookup_def)

text \<open>
  C3, amended. With no request context active the construction throws the plain \<open>Error\<close> of
  the accessor, which is not a domain exception, and yields no exception object. Every
  exception that is constructed was constructed under an active context, and its
  \<open>correlationId\<close> is what \<open>requestId\<close> held, at that moment, in the \<open>AppRequestContext\<close> that
  \<open>getContext\<close> returned (\<open>undefined\<close> as long as \<open>setRequestId\<close> has not been called).
\<close>

theorem construction_without_context_throws:
  "(currentContext st = None \<longrightarrow> ExceptionBase_new k s m ca md st = Inl context_error)
   \<and> context_error \<noteq> DomainException d
   \<and> (ExceptionBase_new k s m ca md st = Inr e \<longrightarrow>
        currentContext st \<noteq> None
        \<and> (\<exists>r robj. getContext st = Inr r \<and> heap_lookup st r = Some robj
              \<and> correlationId e = requestId robj))"
proof (intro conjI impI)
  assume "currentContext st = None"
  then show "ExceptionBase_new k s m ca md st = Inl context_error"
    by (simp add: ExceptionBase_new_def getContext_no_context)
next
  show "context_error \<noteq> DomainException d"
    by (simp add: context_error_def)
next
  assume e: "ExceptionBase_new k s m ca md st = Inr e"
  then obtain r where r: "getContext st = Inr r"
    and e': "e = Exception m k s (requestId (heap st ! r)) ca md"
    using ExceptionBase_new_Inr by blast
  from r show "currentContext st \<noteq> None"
    by (auto simp: getContext_Inr_iff)
  from r have "heap_lookup st r = Some (heap st ! r)"
    using getContext_in_heap by (simp add: heap_lookup_def)
  with r e' show "\<exists>r robj. getContext st = Inr r \<and> heap_lookup st r = Some robj
              \<and> correlationId e = requestId robj"
    by auto
qed

theorem construction_without_context_throws_witness:
  "ExceptionBase_new (lit ''CONFLICT'') (lit ''Error: taken'') (lit ''taken'') None None
     initial_state = Inl context_error
   \<and> currentContext (wired_state (lit ''abc'')) \<noteq> None
   \<and> ExceptionBase_new (lit ''CONFLICT'') (lit ''Error: taken'') (lit ''taken'') None None
       (wired_state (lit ''abc''))
     = Inr (Exception (lit ''taken'') (lit ''CONFLICT'') (lit ''Error: taken'')
              (JString (lit ''abc'')) None None)"
  using construction_without_context_throws
    [of initial_state "lit ''CONFLICT''" "lit ''Error: taken''" "lit ''taken''" None None]
    construction_without_context_throws
    [of "wired_state (lit ''abc'')" "lit ''CONFLICT''" "lit ''Error: taken''" "lit ''taken''"
        None None _
        "Exception (lit ''taken'') (lit ''CONFLICT'') (lit ''Error: taken'')
              (JString (lit ''abc'')) None None"]
  by (simp add: initial_state_def wired_state_def currentContext_def ExceptionBase_new_def
        getContext_def heap_lookup_def)

section \<open>Serialisation\<close>

lemma JSON_stringify_JObject:
  "JSON_stringify (JObject ps) = Inr v \<Longrightarrow> \<exists>t. v = JString t"
  by (auto simp: JSON_stringify_def split: sum.splits)

lemma JSON_stringify_empty_object: "JSON_stringify (JObject []) = Inr (JString (lit ''{}''))"
  by (simp add: JSON_stringify_def lit_def)

lemma JSON_stringify_error_string:
  "JSON_stringify_error err = Inr v \<Longrightarrow> \<exists>t. v = JString t"
  by (cases err) (auto dest: JSON_stringify_JObject split: sum.splits)

lemma toJSON_fields:
  assumes "toJSON e = Inr j"
  shows "ser_message j = message e" and "ser_code j = code e"
    and "ser_correlationId j = correlationId e" and "ser_stack j = stack e"
    and "ser_metadata j = (case metadata e of None \<Rightarrow> JUndefined | Some ps \<Rightarrow> JObject ps)"
    and "cause e = None \<Longrightarrow> ser_cause j = JUndefined"
    and "cause e = Some err \<Longrightarrow> JSON_stringify_error err = Inr (ser_cause j)"
  using assms by (cases e; auto simp: JSON_stringify_def split: sum.splits option.splits)+

lemma toJSON_no_cause:
  "cause e = None \<Longrightarrow>
   toJSON e = Inr \<lparr>ser_message = message e, ser_code = code e,
     ser_correlationId = correlationId e, ser_stack = stack e, ser_cause = JUndefined,
     ser_metadata = (case metadata e of None \<Rightarrow> JUndefined | Some ps \<Rightarrow> JObject ps)\<rparr>"
  by (cases e) (simp add: JSON_stringify_def)

text \<open>
  C6 as stated fails. \<open>new NotFoundException("Widget missing")\<close> under \<open>requestId\<close> \<open>r-1\<close> has no
  cause, and \<open>JSON.stringify(undefined)\<close> is \<open>undefined\<close>: the \<open>cause\<close> of the record is
  \<open>undefined\<close>, not the string \<open>"undefined"\<close>.
\<close>

theorem serialize_cause_undefined_counterexample:
  "NotFoundException_new (lit ''Error: Widget missing'') (Some (lit ''Widget missing''))
     (wired_state (lit ''r-1''))
   = Inr (Exception (lit ''Widget missing'') NOT_FOUND (lit ''Error: Widget missing'')
            (JString (lit ''r-1'')) None None)
   \<and> toJSON (Exception (lit ''Widget missing'') NOT_FOUND (lit ''Error: Widget missing'')
            (JString (lit ''r-1'')) None None)
     = Inr \<lparr>ser_message = lit ''Widget missing'', ser_code = lit ''NOT_FOUND'',
            ser_correlationId = JString (lit ''r-1''), ser_stack = lit ''Error: Widget missing'',
            ser_cause = JUndefined, ser_metadata = JUndefined\<rparr>
   \<and> JUndefined \<noteq> JString (lit ''undefined'')"
  by (simp add: NotFoundException_new_def ExceptionBase_new_def getContext_def currentContext_def
        heap_lookup_def wired_state_def JSON_stringify_def NOT_FOUND_def)

text \<open>
  C6, amended. In the record that \<open>toJSON\<close> returns, \<open>message\<close>, \<open>code\<close>, \<open>correlationId\<close>,
  \<open>stack\<close> and \<open>metadata\<close> are the fields of the exception, unchanged; \<open>cause\<close> is
  \<open>JSON.stringify\<close> of the exception's cause, that is \<open>undefined\<close> when there is no cause.
  An exception without cause always serialises. For \<open>new NotFoundException("Widget missing")\<close>
  under \<open>requestId\<close> \<open>r-1\<close> the record is \<open>{ message: "Widget missing", code: "NOT_FOUND",
  correlationId: "r-1", cause: undefined, metadata: undefined }\<close> and the stack.
\<close>

theorem serialize_keeps_fields:
  "(toJSON e = Inr j \<longrightarrow>
      ser_message j = message e \<and> ser_code j = code e \<and> ser_correlationId j = correlationId e
      \<and> ser_stack j = stack e
      \<and> ser_metadata j = (case metadata e of None \<Rightarrow> JUndefined | Some ps \<Rightarrow> JObject ps)
      \<and> (case cause e of
            None \<Rightarrow> ser_cause j = JUndefined
          | Some err \<Rightarrow> JSON_stringify_error err = Inr (ser_cause j)))
   \<and> (cause e = None \<longrightarrow> (\<exists>j. toJSON e = Inr j))"
  using toJSON_fields [of e j] toJSON_no_cause [of e]
  by (auto split: option.splits)

theorem serialize_keeps_fields_witness:
  "NotFoundException_new (lit ''Error: Widget missing'') (Some (lit ''Widget missing''))
     (wired_state (lit ''r-1''))
   = Inr (Exception (lit ''Widget missing'') (lit ''NOT_FOUND'') (lit ''Error: Widget missing'')
            (JString (lit ''r-1'')) None None)
   \<and> toJSON (Exception (lit ''Widget missing'') (lit ''NOT_FOUND'')
       (lit ''Error: Widget missing'') (JString (lit ''r-1'')) None None)
     = Inr \<lparr>ser_message = lit ''Widget missing'', ser_code = lit ''NOT_FOUND'',
            ser_correlationId = JString (lit ''r-1''), ser_stack = lit ''Error: Widget missing'',
            ser_cause = JUndefined, ser_metadata = JUndefined\<rparr>"
  using serialize_keeps_fields
    [of "Exception (lit ''Widget missing'') (lit ''NOT_FOUND'') (lit ''Error: Widget missing'')
            (JString (lit ''r-1'')) None None"
        "\<lparr>ser_message = lit ''Widget missing'', ser_code = lit ''NOT_FOUND'',
              ser_correlationId = JString (lit ''r-1''), ser_stack = lit ''Error: Widget missing'',
              ser_cause = JUndefined, ser_metadata = JUndefined\<rparr>"]
  by (simp add: NotFoundException_new_def ExceptionBase_new_def getContext_def currentContext_def
        heap_lookup_def wired_state_def JSON_stringify_def NOT_FOUND_def)

text \<open>
  C7. For every exception constructed with a cause, the \<open>cause\<close> of the record that
  \<open>toJSON\<close> returns is a string, never the error object; when the cause is a plain runtime
  error (a built-in error without own enumerable properties) \<open>toJSON\<close> does return a record
  and the string is \<open>{}\<close>.
\<close>

theorem serialize_cause_is_string:
  assumes "ExceptionBase_new k s m (Some err) md st = Inr e"
  shows "(\<forall>j. toJSON e = Inr j \<longrightarrow> (\<exists>t. ser_cause j = JString t))
    \<and> (\<forall>nc em. err = NativeError nc em [] \<longrightarrow>
          (\<exists>j. toJSON e = Inr j \<and> ser_cause j = JString (lit ''{}'')))"
proof -
  from assms have c: "cause e = Some err"
    and e: "e = Exception (message e) k s (correlationId e) (Some err) md"
    by (auto dest!: ExceptionBase_new_Inr)
  have "\<exists>t. ser_cause j = JString t" if "toJSON e = Inr j" for j
    using toJSON_fields(7) [OF that c] JSON_stringify_error_string by blast
  moreover have "\<exists>j. toJSON e = Inr j \<and> ser_cause j = JString (lit ''{}'')"
    if "err = NativeError nc em []" for nc em
    by (subst e, subst (2) e) (simp add: that JSON_stringify_empty_object)
  ultimately show ?thesis
    by blast
qed

theorem serialize_cause_is_string_witness:
  "ExceptionBase_new (lit ''CONFLICT'') (lit ''Error: taken'') (lit ''taken'')
     (Some (NativeError Error_class (lit ''duplicate key'') [])) None (wired_state (lit ''abc''))
   = Inr (Exception (lit ''taken'') (lit ''CONFLICT'') (lit ''Error: taken'')
            (JString (lit ''abc'')) (Some (NativeError Error_class (lit ''duplicate key'') []))
            None)
   \<and> toJSON (Exception (lit ''taken'') (lit ''CONFLICT'') (lit ''Error: taken'')
            (JString (lit ''abc'')) (Some (NativeError Error_class (lit ''duplicate key'') []))
            None)
     = Inr \<lparr>ser_message = lit ''taken'', ser_code = lit ''CONFLICT'',
            ser_correlationId = JString (lit ''abc''), ser_stack = lit ''Error: taken'',
            ser_cause = JString (lit ''{}''), ser_metadata = JUndefined\<rparr>"
  using serialize_cause_is_string
    [of "lit ''CONFLICT''" "lit ''Error: taken''" "lit ''taken''"
        "NativeError Error_class (lit ''duplicate key'') []" None "wired_state (lit ''abc'')"]
  by (simp add: ExceptionBase_new_def getContext_def currentContext_def heap_lookup_def
        wired_state_def JSON_stringify_def lit_def)

end
